theory Spec2Isabelle
  imports Complex_Main "HOL-Library.Log_Nat" "HOL-Library.Product_Lexorder" "HOL-Library.AList"
    "HOL-Library.Sublist"
begin

section \<open>Python values, exceptions and strings\<close>

text \<open>
  The budget manager is dynamically typed Python.  A value that the program reads from
  its JSON file or passes between its functions is a \<open>pyval\<close>; a dictionary is an
  association list in insertion order, with string keys as JSON has them.  An exception
  is a value of \<open>pyexc\<close>, and a computation that may raise returns \<open>pyexc + 'a\<close> with
  \<open>Inl\<close> for the exception.

  Strings are lists of 8-bit characters, read as the code points below 256.  Integers are
  unbounded.  The interpreter's configurable limit on the number of digits in a conversion
  between \<open>int\<close> and \<open>str\<close> and its recursion limit are runtime settings and are not part
  of the model.
\<close>

datatype pyexc = ValueError | TypeError | OverflowError | KeyError | AttributeError | IndexError

datatype pyfloat = Finite rat | PosInf | NegInf | NaN

datatype pyval =
    PyNone
  | PyBool bool
  | PyInt int
  | PyFloat pyfloat
  | PyStr string
  | PyList "pyval list"
  | PyDict "(string \<times> pyval) list"

definition is_digit :: "char \<Rightarrow> bool" where
  "is_digit c = (c \<in> set ''0123456789'')"

definition digit_val :: "char \<Rightarrow> int" where
  "digit_val c = of_char c - 48"

definition digits_value :: "string \<Rightarrow> int" where
  \<comment> \<open>the number that a string of decimal digits denotes\<close>
  "digits_value ds = foldl (\<lambda>a c. 10 * a + digit_val c) 0 ds"

definition is_space :: "char \<Rightarrow> bool" where
  \<comment> \<open>\<open>str.isspace\<close> on the code points below 256\<close>
  "is_space c = ((of_char c :: int) \<in> {9, 10, 11, 12, 13, 28, 29, 30, 31, 32, 133, 160})"

definition is_alnum :: "char \<Rightarrow> bool" where
  \<comment> \<open>\<open>str.isalnum\<close> on the code points below 256\<close>
  "is_alnum c = (let n = (of_char c :: int) in
     (48 \<le> n \<and> n \<le> 57) \<or> (65 \<le> n \<and> n \<le> 90) \<or> (97 \<le> n \<and> n \<le> 122) \<or>
     n \<in> {170, 178, 179, 181, 185, 186, 188, 189, 190} \<or>
     (192 \<le> n \<and> n \<le> 214) \<or> (216 \<le> n \<and> n \<le> 246) \<or> (248 \<le> n \<and> n \<le> 255))"

definition is_word :: "char \<Rightarrow> bool" where
  "is_word c = (is_alnum c \<or> c = CHR ''_'')"

definition py_lower_char :: "char \<Rightarrow> char" where
  "py_lower_char c = (let n = (of_char c :: int) in
     if (65 \<le> n \<and> n \<le> 90) \<or> (192 \<le> n \<and> n \<le> 222 \<and> n \<noteq> 215) then char_of (n + 32) else c)"

definition py_lower :: "string \<Rightarrow> string" where
  "py_lower s = map py_lower_char s"

definition py_strip :: "string \<Rightarrow> string" where
  "py_strip s = rev (dropWhile is_space (rev (dropWhile is_space s)))"

fun split_acc :: "string \<Rightarrow> string \<Rightarrow> string list" where
  "split_acc w [] = (if w = [] then [] else [rev w])"
| "split_acc w (c # cs) =
     (if is_space c then (if w = [] then split_acc [] cs else rev w # split_acc [] cs)
      else split_acc (c # w) cs)"

definition py_split :: "string \<Rightarrow> string list" where
  \<comment> \<open>\<open>s.split()\<close>: the maximal runs of characters that are not whitespace\<close>
  "py_split s = split_acc [] s"

fun join_space :: "string list \<Rightarrow> string" where
  "join_space [] = []"
| "join_space [w] = w"
| "join_space (w # ws) = w @ CHR '' '' # join_space ws"

definition py_replace_char :: "char \<Rightarrow> string \<Rightarrow> string" where
  \<comment> \<open>\<open>s.replace(c, "")\<close> for a one-character \<open>c\<close>\<close>
  "py_replace_char c s = filter (\<lambda>x. x \<noteq> c) s"

section \<open>Regular expressions\<close>

text \<open>
  The patterns of the source, as data, and a backtracking matcher that lists the ways a
  pattern matches in the order in which Python's \<open>re\<close> tries them (greedy repetition,
  left alternative first).  \<open>re.match\<close> takes the first.  Repetition is only ever applied
  to a single character class in the source.
\<close>

datatype regex =
    Chr "char \<Rightarrow> bool"
  | Cat regex regex
  | Alt regex regex
  | Star "char \<Rightarrow> bool"
  | Plus "char \<Rightarrow> bool"
  | Group nat regex
  | Eol
  | WordB
  | Eps

record mstate =
  before :: string
  rest :: string
  groups :: "(nat \<times> string) list"

definition advance :: "nat \<Rightarrow> mstate \<Rightarrow> mstate" where
  "advance k st = st\<lparr>before := before st @ take k (rest st), rest := drop k (rest st)\<rparr>"

definition at_word_boundary :: "mstate \<Rightarrow> bool" where
  "at_word_boundary st =
     ((before st \<noteq> [] \<and> is_word (last (before st))) \<noteq> (rest st \<noteq> [] \<and> is_word (hd (rest st))))"

fun rmatch :: "regex \<Rightarrow> mstate \<Rightarrow> mstate list" where
  "rmatch (Chr p) st =
     (case rest st of [] \<Rightarrow> [] | c # cs \<Rightarrow> if p c then [advance 1 st] else [])"
| "rmatch (Cat a b) st = concat (map (rmatch b) (rmatch a st))"
| "rmatch (Alt a b) st = rmatch a st @ rmatch b st"
| "rmatch (Star p) st =
     map (\<lambda>k. advance k st) (rev [0 ..< Suc (length (takeWhile p (rest st)))])"
| "rmatch (Plus p) st =
     map (\<lambda>k. advance k st) (rev [1 ..< Suc (length (takeWhile p (rest st)))])"
| "rmatch (Group i r) st =
     map (\<lambda>st'. st'\<lparr>groups := AList.update i (drop (length (before st)) (before st')) (groups st')\<rparr>)
       (rmatch r st)"
| "rmatch Eol st = (if rest st = [] \<or> rest st = [CHR 0x0A] then [st] else [])"
| "rmatch WordB st = (if at_word_boundary st then [st] else [])"
| "rmatch Eps st = [st]"

definition re_match :: "regex \<Rightarrow> string \<Rightarrow> (nat \<times> string) list option" where
  "re_match r s =
     (case rmatch r \<lparr>before = [], rest = s, groups = []\<rparr> of
        [] \<Rightarrow> None
      | st # _ \<Rightarrow> Some (groups st))"

definition re_group :: "(nat \<times> string) list \<Rightarrow> nat \<Rightarrow> string" where
  "re_group gs i = (case map_of gs i of Some g \<Rightarrow> g | None \<Rightarrow> [])"

fun seq :: "regex list \<Rightarrow> regex" where
  "seq [] = Eps"
| "seq (r # rs) = Cat r (seq rs)"

definition lit :: "char \<Rightarrow> regex" where
  "lit c = Chr (\<lambda>x. x = c)"

definition lit_ci :: "string \<Rightarrow> regex" where
  \<comment> \<open>a lower-case literal under \<open>re.IGNORECASE\<close>\<close>
  "lit_ci s = seq (map (\<lambda>c. Chr (\<lambda>x. py_lower_char x = c)) s)"

definition any_char :: "char \<Rightarrow> bool" where
  \<comment> \<open>\<open>.\<close> matches everything but a newline\<close>
  "any_char c = (c \<noteq> CHR 0x0A)"

definition digit_range :: "char \<Rightarrow> char \<Rightarrow> regex" where
  "digit_range lo hi = Chr (\<lambda>x. is_digit x \<and> digit_val lo \<le> digit_val x \<and> digit_val x \<le> digit_val hi)"

section \<open>Floats\<close>

text \<open>
  A finite float is the rational it denotes.  \<open>to_double\<close> rounds a rational to the
  nearest IEEE 754 double, ties to even, overflowing to an infinity, which is what
  \<open>float\<close> does to a decimal literal and to an \<open>int\<close> that is in range.
\<close>

definition pow2 :: "int \<Rightarrow> rat" where
  "pow2 e = (if 0 \<le> e then of_int (2 ^ nat e) else 1 / of_int (2 ^ nat (- e)))"

definition pow10 :: "int \<Rightarrow> rat" where
  "pow10 e = (if 0 \<le> e then of_int (10 ^ nat e) else 1 / of_int (10 ^ nat (- e)))"

definition round_half_even :: "rat \<Rightarrow> int" where
  "round_half_even x = (let f = \<lfloor>x\<rfloor>; d = x - of_int f in
     if d < 1 / 2 then f else if 1 / 2 < d then f + 1 else if even f then f else f + 1)"

definition binexp :: "rat \<Rightarrow> int" where
  \<comment> \<open>for \<open>0 < x\<close>, the \<open>e\<close> with \<open>2 ^ e \<le> x < 2 ^ (e + 1)\<close>\<close>
  "binexp x = (let (p, q) = quotient_of x in
     if q \<le> p then bitlen (p div q) - 1 else - bitlen ((q - 1) div p))"

definition to_double :: "rat \<Rightarrow> pyfloat" where
  "to_double x = (if x = 0 then Finite 0 else
     let a = \<bar>x\<bar>;
         e = max (binexp a) (- 1022);
         u = pow2 (e - 52);
         y = of_int (round_half_even (a / u)) * u
     in if pow2 1024 \<le> y then (if x < 0 then NegInf else PosInf)
        else Finite (if x < 0 then - y else y))"

fun strip_underscores :: "char \<Rightarrow> string \<Rightarrow> string option" where
  \<comment> \<open>an underscore is allowed only between two digits; the first argument is the previous character\<close>
  "strip_underscores prev [] = (if prev = CHR ''_'' then None else Some [])"
| "strip_underscores prev (c # cs) =
     (if c = CHR ''_'' then (if is_digit prev then strip_underscores c cs else None)
      else if prev = CHR ''_'' \<and> \<not> is_digit c then None
      else map_option ((#) c) (strip_underscores c cs))"

definition split_sign :: "string \<Rightarrow> bool \<times> string" where
  "split_sign s = (case s of
       [] \<Rightarrow> (False, [])
     | c # cs \<Rightarrow> if c = CHR ''-'' then (True, cs) else if c = CHR ''+'' then (False, cs) else (False, s))"

definition parse_exponent :: "string \<Rightarrow> int option" where
  \<comment> \<open>what follows the digits of a float literal: nothing, or \<open>e\<close> and a signed integer\<close>
  "parse_exponent r = (case r of
       [] \<Rightarrow> Some 0
     | c # r' \<Rightarrow>
         if c = CHR ''e'' \<or> c = CHR ''E'' then
           (let (neg, ds) = split_sign r' in
            if ds \<noteq> [] \<and> list_all is_digit ds
            then Some (if neg then - digits_value ds else digits_value ds)
            else None)
         else None)"

definition parse_decimal :: "string \<Rightarrow> rat option" where
  \<comment> \<open>digits, an optional point and digits, an optional exponent; at least one digit\<close>
  "parse_decimal body = (let
       ip = takeWhile is_digit body;
       r1 = dropWhile is_digit body;
       has_point = (r1 \<noteq> [] \<and> hd r1 = CHR ''.'');
       fp = (if has_point then takeWhile is_digit (tl r1) else []);
       r2 = (if has_point then dropWhile is_digit (tl r1) else r1)
     in if ip = [] \<and> fp = [] then None
        else (case parse_exponent r2 of
                None \<Rightarrow> None
              | Some ex \<Rightarrow> Some (of_int (digits_value (ip @ fp)) * pow10 (ex - int (length fp)))))"

definition py_float_of_string :: "string \<Rightarrow> pyexc + pyfloat" where
  \<comment> \<open>\<open>float(s)\<close> for a string\<close>
  "py_float_of_string s = (case strip_underscores (CHR 0x00) (py_strip s) of
       None \<Rightarrow> Inl ValueError
     | Some t \<Rightarrow>
         (let (neg, body) = split_sign t in
          if py_lower body = ''inf'' \<or> py_lower body = ''infinity''
            then Inr (if neg then NegInf else PosInf)
          else if py_lower body = ''nan'' then Inr NaN
          else (case parse_decimal body of
                  None \<Rightarrow> Inl ValueError
                | Some v \<Rightarrow> Inr (to_double (if neg then - v else v)))))"

definition py_float_of_int :: "int \<Rightarrow> pyexc + pyfloat" where
  \<comment> \<open>\<open>float(n)\<close> for an integer: an integer too large for a double raises\<close>
  "py_float_of_int n = (case to_double (of_int n) of
       Finite y \<Rightarrow> Inr (Finite y)
     | _ \<Rightarrow> Inl OverflowError)"

definition py_float :: "pyval \<Rightarrow> pyexc + pyfloat" where
  "py_float v = (case v of
       PyStr s \<Rightarrow> py_float_of_string s
     | PyInt n \<Rightarrow> py_float_of_int n
     | PyBool b \<Rightarrow> Inr (Finite (if b then 1 else 0))
     | PyFloat f \<Rightarrow> Inr f
     | _ \<Rightarrow> Inl TypeError)"

definition trunc_toward_zero :: "rat \<Rightarrow> int" where
  "trunc_toward_zero x = (if 0 \<le> x then \<lfloor>x\<rfloor> else \<lceil>x\<rceil>)"

definition py_int_of_float :: "pyfloat \<Rightarrow> pyexc + int" where
  \<comment> \<open>\<open>int(f)\<close> for a float\<close>
  "py_int_of_float f = (case f of
       Finite x \<Rightarrow> Inr (trunc_toward_zero x)
     | NaN \<Rightarrow> Inl ValueError
     | _ \<Rightarrow> Inl OverflowError)"

definition py_int_of_string :: "string \<Rightarrow> pyexc + int" where
  \<comment> \<open>\<open>int(s)\<close> for a string, base 10\<close>
  "py_int_of_string s = (let (neg, body) = split_sign (py_strip s) in
     case strip_underscores (CHR 0x00) body of
       None \<Rightarrow> Inl ValueError
     | Some ds \<Rightarrow>
         if ds \<noteq> [] \<and> list_all is_digit ds
         then Inr (if neg then - digits_value ds else digits_value ds)
         else Inl ValueError)"

definition py_int :: "pyval \<Rightarrow> pyexc + int" where
  "py_int v = (case v of
       PyInt n \<Rightarrow> Inr n
     | PyBool b \<Rightarrow> Inr (if b then 1 else 0)
     | PyFloat f \<Rightarrow> py_int_of_float f
     | PyStr s \<Rightarrow> py_int_of_string s
     | _ \<Rightarrow> Inl TypeError)"

section \<open>Validation (validation\_utils.py)\<close>

definition clean_amount :: "string \<Rightarrow> string" where
  \<comment> \<open>\<open>value.replace(",", "").replace(" ", "")\<close>\<close>
  "clean_amount s = py_replace_char (CHR '' '') (py_replace_char (CHR '','') s)"

definition ensure_valid_financial_input :: "pyval \<Rightarrow> pyexc + int" where
  "ensure_valid_financial_input v = (let
       cleaned = (case v of PyStr s \<Rightarrow> PyStr (clean_amount s) | _ \<Rightarrow> v);
       body = (case py_float cleaned of
                 Inl e \<Rightarrow> Inl e
               | Inr f \<Rightarrow>
                   (case py_int_of_float f of
                      Inl e \<Rightarrow> Inl e
                    | Inr r \<Rightarrow> if r < 0 then Inl ValueError else Inr r))
     in case body of
          Inl e \<Rightarrow> if e = ValueError \<or> e = TypeError then Inl ValueError else Inl e
        | Inr r \<Rightarrow> Inr r)"

definition strict_month_re :: regex where
  \<comment> \<open>\<open>^(0[1-9]|1[0-2])/\d{2}$\<close>\<close>
  "strict_month_re = seq
     [Group 1 (Alt (Cat (lit CHR ''0'') (digit_range CHR ''1'' CHR ''9''))
                   (Cat (lit CHR ''1'') (digit_range CHR ''0'' CHR ''2''))),
      lit CHR ''/'', Chr is_digit, Chr is_digit, Eol]"

definition ensure_valid_month_format :: "string \<Rightarrow> bool" where
  "ensure_valid_month_format m = (re_match strict_month_re m \<noteq> None)"

definition lenient_month_re :: "char \<Rightarrow> regex" where
  \<comment> \<open>\<open>^([1-9]|0[1-9]|1[0-2])/\d{2}$\<close>, and the same with \<open>\.\<close> as the separator\<close>
  "lenient_month_re sep = seq
     [Group 1 (Alt (digit_range CHR ''1'' CHR ''9'')
                (Alt (Cat (lit CHR ''0'') (digit_range CHR ''1'' CHR ''9''))
                     (Cat (lit CHR ''1'') (digit_range CHR ''0'' CHR ''2'')))),
      lit sep, Chr is_digit, Chr is_digit, Eol]"

definition is_valid_month_format_lenient :: "string \<Rightarrow> bool" where
  "is_valid_month_format_lenient m =
     (re_match (lenient_month_re CHR ''/'') m \<noteq> None \<or> re_match (lenient_month_re CHR ''.'') m \<noteq> None)"

section \<open>The command parser (parser\_utils.py)\<close>

definition validate_month_format :: "string \<Rightarrow> bool" where
  "validate_month_format m = is_valid_month_format_lenient m"

fun split_on_acc :: "char \<Rightarrow> string \<Rightarrow> string \<Rightarrow> string list" where
  "split_on_acc sep w [] = [rev w]"
| "split_on_acc sep w (c # cs) =
     (if c = sep then rev w # split_on_acc sep [] cs else split_on_acc sep (c # w) cs)"

definition py_split_on :: "char \<Rightarrow> string \<Rightarrow> string list" where
  \<comment> \<open>\<open>s.split(sep)\<close> for a one-character separator\<close>
  "py_split_on sep s = split_on_acc sep [] s"

definition py_index :: "'a list \<Rightarrow> nat \<Rightarrow> pyexc + 'a" where
  \<comment> \<open>\<open>xs[i]\<close> for a non-negative index\<close>
  "py_index xs i = (if i < length xs then Inr (xs ! i) else Inl IndexError)"

definition normalize_month_format :: "string \<Rightarrow> pyexc + string" where
  "normalize_month_format m = (let
       parts = (if CHR ''.'' \<in> set m then py_split_on (CHR ''.'') m else py_split_on (CHR ''/'') m)
     in case py_index parts 0 of
          Inl e \<Rightarrow> Inl e
        | Inr month_part \<Rightarrow>
            (case py_index parts 1 of
               Inl e \<Rightarrow> Inl e
             | Inr year_part \<Rightarrow>
                 if length month_part = 1 then Inr (''0'' @ month_part @ ''/'' @ year_part)
                 else Inr (month_part @ ''/'' @ year_part)))"

record command_result =
  command :: "string option"
  amount :: "int option"
  month :: "string option"
  error :: "string option"
  menu_option :: "int option"

definition empty_result :: command_result where
  "empty_result = \<lparr>command = None, amount = None, month = None, error = None, menu_option = None\<rparr>"

definition is_sign :: "char \<Rightarrow> bool" where
  \<comment> \<open>\<open>[+\-]\<close>\<close>
  "is_sign c = (c = CHR ''+'' \<or> c = CHR ''-'')"

definition digits_re :: regex where
  \<comment> \<open>\<open>^\d+$\<close>\<close>
  "digits_re = seq [Plus is_digit, Eol]"

definition add_re :: regex where
  \<comment> \<open>\<open>^add\s+(.+)$\<close>, ignoring case\<close>
  "add_re = seq [lit_ci ''add'', Plus is_space, Group 1 (Plus any_char), Eol]"

definition bank_re :: regex where
  \<comment> \<open>\<open>^bank\s+(.+)$\<close>, ignoring case\<close>
  "bank_re = seq [lit_ci ''bank'', Plus is_space, Group 1 (Plus any_char), Eol]"

definition bank_word_re :: regex where
  \<comment> \<open>\<open>^bank\b\<close>, ignoring case\<close>
  "bank_word_re = seq [lit_ci ''bank'', WordB]"

definition update_re :: regex where
  \<comment> \<open>\<open>^([+\-])\s*(\d+)\s+([0-9]+[/\.]\d{2})$\<close>\<close>
  "update_re = seq
     [Group 1 (Chr is_sign), Star is_space, Group 2 (Plus is_digit), Plus is_space,
      Group 3 (seq [Plus is_digit, Chr (\<lambda>c. c = CHR ''/'' \<or> c = CHR ''.''), Chr is_digit, Chr is_digit]),
      Eol]"

definition sign_digits_re :: regex where
  \<comment> \<open>\<open>^[+\-]\s*\d+$\<close>\<close>
  "sign_digits_re = seq [Chr is_sign, Star is_space, Plus is_digit, Eol]"

definition sign_nondigit_re :: regex where
  \<comment> \<open>\<open>^[+\-][^\d].*$\<close>\<close>
  "sign_nondigit_re = seq [Chr is_sign, Chr (\<lambda>c. \<not> is_digit c), Star any_char, Eol]"

definition sign_slash_re :: regex where
  \<comment> \<open>\<open>^[+\-].*\d+/\d+$\<close>\<close>
  "sign_slash_re = seq [Chr is_sign, Star any_char, Plus is_digit, lit CHR ''/'', Plus is_digit, Eol]"

definition collapse_whitespace :: "string \<Rightarrow> string" where
  \<comment> \<open>\<open>' '.join(user_input.split()).strip()\<close>\<close>
  "collapse_whitespace s = py_strip (join_space (py_split s))"

definition add_content :: "string \<Rightarrow> string option" where
  \<comment> \<open>\<open>add_match.group(1)\<close> when the input matches the add pattern\<close>
  "add_content s = map_option (\<lambda>gs. re_group gs 1) (re_match add_re s)"

function parse_command :: "string \<Rightarrow> pyexc + command_result" where
  "parse_command user_input = (let s = collapse_whitespace user_input in
     if s = [] then Inr (empty_result\<lparr>command := Some ''menu''\<rparr>)
     else if re_match digits_re s \<noteq> None then
       (case py_int_of_string s of
          Inl e \<Rightarrow> Inl e
        | Inr n \<Rightarrow> Inr (empty_result\<lparr>command := Some ''menu_option'', menu_option := Some n\<rparr>))
     else case add_content s of
       Some content \<Rightarrow>
         (case parse_command content of
            Inl e \<Rightarrow> Inl e
          | Inr nested_result \<Rightarrow>
              if command nested_result = None \<or> error nested_result \<noteq> None
              then Inr (empty_result\<lparr>command := None, error := Some ''invalid_command''\<rparr>)
              else Inr nested_result)
     | None \<Rightarrow>
       (case re_match bank_re s of
          Some gs \<Rightarrow>
            (case ensure_valid_financial_input (PyStr (py_strip (re_group gs 1))) of
               Inr a \<Rightarrow> Inr (empty_result\<lparr>command := Some ''bank'', amount := Some a\<rparr>)
             | Inl e \<Rightarrow>
                 if e = ValueError
                 then Inr (empty_result\<lparr>command := None, error := Some ''invalid_amount''\<rparr>)
                 else Inl e)
        | None \<Rightarrow>
            if re_match bank_word_re s \<noteq> None
            then Inr (empty_result\<lparr>command := None, error := Some ''invalid_command''\<rparr>)
            else (case re_match update_re s of
              Some gs \<Rightarrow>
                (let sign = re_group gs 1;
                     amount_str = py_strip (re_group gs 2);
                     m = py_strip (re_group gs 3)
                 in case ensure_valid_financial_input (PyStr amount_str) of
                      Inl e \<Rightarrow>
                        if e = ValueError
                        then Inr (empty_result\<lparr>command := None, error := Some ''invalid_amount''\<rparr>)
                        else Inl e
                    | Inr a \<Rightarrow>
                        if \<not> validate_month_format m
                        then Inr (empty_result\<lparr>command := None, error := Some ''invalid_date''\<rparr>)
                        else (case normalize_month_format m of
                                Inl e \<Rightarrow> Inl e
                              | Inr m' \<Rightarrow>
                                  if sign = ''+''
                                  then Inr (empty_result\<lparr>command := Some ''income'', amount := Some a, month := Some m'\<rparr>)
                                  else Inr (empty_result\<lparr>command := Some ''expense'', amount := Some a, month := Some m'\<rparr>)))
            | None \<Rightarrow>
                if re_match sign_digits_re s \<noteq> None \<or> re_match sign_nondigit_re s \<noteq> None \<or>
                   re_match sign_slash_re s \<noteq> None
                then Inr (empty_result\<lparr>command := None, error := Some ''invalid_command''\<rparr>)
                else if py_lower s \<in> set ['''', ''save'', ''return'', ''menu'', ''main'']
                then Inr (empty_result\<lparr>command := Some ''menu''\<rparr>)
                else if py_lower s = ''exit'' then Inr (empty_result\<lparr>command := Some ''exit''\<rparr>)
                else if py_lower s = ''graph'' then Inr (empty_result\<lparr>command := Some ''graph''\<rparr>)
                else if py_lower s = ''view'' then Inr (empty_result\<lparr>command := Some ''view''\<rparr>)
                else if py_lower s = ''add'' then Inr (empty_result\<lparr>command := Some ''add''\<rparr>)
                else Inr (empty_result\<lparr>command := None, error := Some ''invalid_command''\<rparr>))))"
  by pat_completeness auto

section \<open>Operations on dynamically typed values\<close>

text \<open>
  The operations that the program applies to values whose type it does not check, with the
  exception that each raises on a value of the wrong type.  The key is always a string.
\<close>

definition py_contains :: "string \<Rightarrow> pyval \<Rightarrow> pyexc + bool" where
  \<comment> \<open>\<open>key in v\<close>: a key of a dictionary, an element of a list, a substring of a string\<close>
  "py_contains key v = (case v of
       PyDict kvs \<Rightarrow> Inr (map_of kvs key \<noteq> None)
     | PyList xs \<Rightarrow> Inr (PyStr key \<in> set xs)
     | PyStr s \<Rightarrow> Inr (sublist key s)
     | _ \<Rightarrow> Inl TypeError)"

definition py_getitem :: "pyval \<Rightarrow> string \<Rightarrow> pyexc + pyval" where
  \<comment> \<open>\<open>v[key]\<close>\<close>
  "py_getitem v key = (case v of
       PyDict kvs \<Rightarrow> (case map_of kvs key of None \<Rightarrow> Inl KeyError | Some x \<Rightarrow> Inr x)
     | _ \<Rightarrow> Inl TypeError)"

definition py_get :: "pyval \<Rightarrow> string \<Rightarrow> pyval \<Rightarrow> pyexc + pyval" where
  \<comment> \<open>\<open>v.get(key, default)\<close>\<close>
  "py_get v key dflt = (case v of
       PyDict kvs \<Rightarrow> (case map_of kvs key of None \<Rightarrow> Inr dflt | Some x \<Rightarrow> Inr x)
     | _ \<Rightarrow> Inl AttributeError)"

definition py_setitem :: "pyval \<Rightarrow> string \<Rightarrow> pyval \<Rightarrow> pyexc + pyval" where
  \<comment> \<open>\<open>v[key] = x\<close>: the value of \<open>v\<close> afterwards\<close>
  "py_setitem v key x = (case v of
       PyDict kvs \<Rightarrow> Inr (PyDict (AList.update key x kvs))
     | _ \<Rightarrow> Inl TypeError)"

definition py_delitem :: "pyval \<Rightarrow> string \<Rightarrow> pyexc + pyval" where
  \<comment> \<open>\<open>del v[key]\<close>: the value of \<open>v\<close> afterwards\<close>
  "py_delitem v key = (case v of
       PyDict kvs \<Rightarrow>
         (case map_of kvs key of None \<Rightarrow> Inl KeyError | Some _ \<Rightarrow> Inr (PyDict (AList.delete key kvs)))
     | _ \<Rightarrow> Inl TypeError)"

definition py_copy :: "pyval \<Rightarrow> pyexc + pyval" where
  \<comment> \<open>\<open>v.copy()\<close>\<close>
  "py_copy v = (case v of PyDict kvs \<Rightarrow> Inr v | PyList xs \<Rightarrow> Inr v | _ \<Rightarrow> Inl AttributeError)"

definition py_iter :: "pyval \<Rightarrow> pyexc + pyval list" where
  \<comment> \<open>the items that \<open>for x in v\<close> visits\<close>
  "py_iter v = (case v of
       PyList xs \<Rightarrow> Inr xs
     | PyDict kvs \<Rightarrow> Inr (map (\<lambda>kv. PyStr (fst kv)) kvs)
     | PyStr s \<Rightarrow> Inr (map (\<lambda>c. PyStr [c]) s)
     | _ \<Rightarrow> Inl TypeError)"

definition digit_char :: "int \<Rightarrow> char" where
  "digit_char d = char_of (48 + d)"

function digits_of :: "int \<Rightarrow> string" where
  "digits_of n = (if n < 10 then [digit_char n] else digits_of (n div 10) @ [digit_char (n mod 10)])"
  by pat_completeness auto
termination
  by (relation "measure nat") auto

declare digits_of.simps [simp del]

definition str_of_int :: "int \<Rightarrow> string" where
  \<comment> \<open>\<open>str(n)\<close> for an integer\<close>
  "str_of_int n = (if n < 0 then CHR ''-'' # digits_of (- n) else digits_of n)"

definition py_str :: "(pyval \<Rightarrow> string) \<Rightarrow> pyval \<Rightarrow> string" where
  \<comment> \<open>\<open>str(v)\<close>; the text of a float, a list or a dictionary is left to the parameter\<close>
  "py_str repr v = (case v of
       PyInt n \<Rightarrow> str_of_int n
     | PyStr s \<Rightarrow> s
     | PyBool b \<Rightarrow> (if b then ''True'' else ''False'')
     | PyNone \<Rightarrow> ''None''
     | _ \<Rightarrow> repr v)"

definition format_money :: "int \<Rightarrow> pyexc + unit" where
  \<comment> \<open>\<open>f"{n:,.2f}"\<close> converts the integer to a float first, which can raise; the text is not modelled\<close>
  "format_money n = (case py_float_of_int n of Inl e \<Rightarrow> Inl e | Inr _ \<Rightarrow> Inr ())"

section \<open>Normalization of loaded data (validation\_utils.py)\<close>

definition normalize_field :: "string \<Rightarrow> pyval \<Rightarrow> pyexc + pyval" where
  \<comment> \<open>the \<open>try\<close> block for one of the fields \<open>salary\<close>, \<open>expenses\<close> and \<open>bank_balance\<close>\<close>
  "normalize_field key v = (case py_contains key v of
       Inl e \<Rightarrow> Inl e
     | Inr True \<Rightarrow>
         (case py_getitem v key of
            Inl e \<Rightarrow> Inl e
          | Inr x \<Rightarrow> (case py_int x of Inl e \<Rightarrow> Inl e | Inr n \<Rightarrow> py_setitem v key (PyInt n)))
     | Inr False \<Rightarrow> py_setitem v key (PyInt 0))"

definition normalize_record_field :: "string \<Rightarrow> pyval \<Rightarrow> pyexc + pyval" where
  \<comment> \<open>the handler of a record's field builds its message with \<open>normalized_record.get\<close>\<close>
  "normalize_record_field key v = (case normalize_field key v of
       Inl e \<Rightarrow>
         if e = ValueError \<or> e = TypeError
         then (case py_get v ''month'' (PyStr ''unknown'') of Inl e' \<Rightarrow> Inl e' | Inr _ \<Rightarrow> Inl ValueError)
         else Inl e
     | Inr v' \<Rightarrow> Inr v')"

definition validate_and_normalize_record :: "pyval \<Rightarrow> pyexc + pyval" where
  "validate_and_normalize_record record = (case py_copy record of
       Inl e \<Rightarrow> Inl e
     | Inr normalized_record \<Rightarrow>
         (case py_contains ''month'' normalized_record of
            Inl e \<Rightarrow> Inl e
          | Inr False \<Rightarrow> Inl ValueError
          | Inr True \<Rightarrow>
              (case normalize_record_field ''salary'' normalized_record of
                 Inl e \<Rightarrow> Inl e
               | Inr r1 \<Rightarrow> normalize_record_field ''expenses'' r1)))"

fun normalize_records :: "pyval list \<Rightarrow> pyexc + pyval list" where
  \<comment> \<open>the loop over the records: a record that raises \<open>ValueError\<close> is skipped\<close>
  "normalize_records [] = Inr []"
| "normalize_records (record # records) =
     (case validate_and_normalize_record record of
        Inl e \<Rightarrow> if e = ValueError then normalize_records records else Inl e
      | Inr r \<Rightarrow> (case normalize_records records of Inl e \<Rightarrow> Inl e | Inr rs \<Rightarrow> Inr (r # rs)))"

definition validate_and_normalize_data :: "pyval \<Rightarrow> pyexc + pyval" where
  "validate_and_normalize_data data = (case py_copy data of
       Inl e \<Rightarrow> Inl e
     | Inr d0 \<Rightarrow>
         (case py_contains ''monthly_records'' d0 of
            Inl e \<Rightarrow> Inl e
          | Inr has_records \<Rightarrow>
              (case (if has_records then Inr d0 else py_setitem d0 ''monthly_records'' (PyList [])) of
                 Inl e \<Rightarrow> Inl e
               | Inr d1 \<Rightarrow>
                   (case normalize_field ''bank_balance'' d1 of
                      Inl e \<Rightarrow> if e = ValueError \<or> e = TypeError then Inl ValueError else Inl e
                    | Inr d2 \<Rightarrow>
                        (case py_getitem d2 ''monthly_records'' of
                           Inl e \<Rightarrow> Inl e
                         | Inr recs \<Rightarrow>
                             (case py_iter recs of
                                Inl e \<Rightarrow> Inl e
                              | Inr items \<Rightarrow>
                                  (case normalize_records items of
                                     Inl e \<Rightarrow> Inl e
                                   | Inr normalized_records \<Rightarrow>
                                       py_setitem d2 ''monthly_records'' (PyList normalized_records))))))))"

section \<open>Calculations (calculations.py)\<close>

definition parse_month_key :: "pyval \<Rightarrow> int \<times> int" where
  \<comment> \<open>the \<open>try\<close> block of \<open>get_date_key\<close>: anything but two integers around one \<open>/\<close> gives \<open>(0, 0)\<close>\<close>
  "parse_month_key m = (case m of
       PyStr s \<Rightarrow>
         (case py_split_on (CHR ''/'') s of
            [a, b] \<Rightarrow>
              (case (py_int_of_string a, py_int_of_string b) of
                 (Inr month_num, Inr year) \<Rightarrow> (year, month_num)
               | _ \<Rightarrow> (0, 0))
          | _ \<Rightarrow> (0, 0))
     | _ \<Rightarrow> (0, 0))"

definition get_date_key :: "pyval \<Rightarrow> pyexc + int \<times> int" where
  "get_date_key record = (case py_get record ''month'' (PyStr ''00/00'') of
       Inl e \<Rightarrow> Inl e
     | Inr m \<Rightarrow> Inr (parse_month_key m))"

fun collect :: "(pyexc + 'a) list \<Rightarrow> pyexc + 'a list" where
  \<comment> \<open>the results in order, or the first exception\<close>
  "collect [] = Inr []"
| "collect (x # xs) =
     (case x of
        Inl e \<Rightarrow> Inl e
      | Inr v \<Rightarrow> (case collect xs of Inl e \<Rightarrow> Inl e | Inr vs \<Rightarrow> Inr (v # vs)))"

definition sort_records_by_date :: "pyval list \<Rightarrow> pyexc + pyval list" where
  \<comment> \<open>\<open>sorted\<close> computes every key first and sorts stably\<close>
  "sort_records_by_date records = (case collect (map get_date_key records) of
       Inl e \<Rightarrow> Inl e
     | Inr keys \<Rightarrow> Inr (map snd (sort_key fst (zip keys records))))"

fun find_month :: "string \<Rightarrow> pyval list \<Rightarrow> pyexc + pyval" where
  \<comment> \<open>the loop of \<open>get_existing_data_for_month\<close>\<close>
  "find_month m [] = Inr (PyDict [])"
| "find_month m (record # records) =
     (case py_get record ''month'' (PyStr '''') of
        Inl e \<Rightarrow> Inl e
      | Inr (PyStr s) \<Rightarrow> if py_strip s = m then Inr record else find_month m records
      | Inr _ \<Rightarrow> Inl AttributeError)"

definition get_existing_data_for_month :: "pyval \<Rightarrow> string \<Rightarrow> pyexc + pyval" where
  "get_existing_data_for_month data m = (case data of
       PyDict kvs \<Rightarrow>
         (case map_of kvs ''monthly_records'' of
            None \<Rightarrow> Inr (PyDict [])
          | Some recs \<Rightarrow>
              (case py_iter recs of
                 Inl e \<Rightarrow> Inl e
               | Inr items \<Rightarrow> find_month (py_strip m) items))
     | _ \<Rightarrow> Inr (PyDict []))"

fun any_positive :: "string \<Rightarrow> pyval list \<Rightarrow> pyexc + bool" where
  \<comment> \<open>\<open>any(int(record.get(field, "0")) > 0 for record in ...)\<close>, which stops at the first hit\<close>
  "any_positive field [] = Inr False"
| "any_positive field (record # records) =
     (case py_get record field (PyStr ''0'') of
        Inl e \<Rightarrow> Inl e
      | Inr v \<Rightarrow>
          (case py_int v of
             Inl e \<Rightarrow> Inl e
           | Inr n \<Rightarrow> if 0 < n then Inr True else any_positive field records))"

definition has_field_data :: "string \<Rightarrow> pyval \<Rightarrow> pyexc + bool" where
  \<comment> \<open>the common body of \<open>has_salary_data\<close> and \<open>has_expense_data\<close>\<close>
  "has_field_data field data = (case data of
       PyDict kvs \<Rightarrow>
         (case map_of kvs ''monthly_records'' of
            None \<Rightarrow> Inr False
          | Some recs \<Rightarrow>
              (case (case py_iter recs of Inl e \<Rightarrow> Inl e | Inr items \<Rightarrow> any_positive field items) of
                 Inl e \<Rightarrow> if e = ValueError \<or> e = TypeError then Inr False else Inl e
               | Inr b \<Rightarrow> Inr b))
     | _ \<Rightarrow> Inr False)"

definition has_salary_data :: "pyval \<Rightarrow> pyexc + bool" where
  "has_salary_data data = has_field_data ''salary'' data"

definition has_expense_data :: "pyval \<Rightarrow> pyexc + bool" where
  "has_expense_data data = has_field_data ''expenses'' data"

section \<open>The record store (budget.py)\<close>

text \<open>
  The functions of the record store change the dataset in place.  An outcome carries the
  content of the caller's dataset after the call, whether the call returned or raised.
\<close>

datatype 'a outcome = Returned pyval 'a | Raised pyexc pyval

definition DEFAULT_DATA :: pyval where
  "DEFAULT_DATA = PyDict [(''monthly_records'', PyList []), (''bank_balance'', PyInt 0)]"

datatype file_content = NoFile | Unreadable | NotJson | Json pyval

definition migrate_balance :: "pyval \<Rightarrow> pyexc + pyval" where
  \<comment> \<open>the legacy key \<open>current_balance\<close> becomes \<open>bank_balance\<close>; a missing balance becomes 0\<close>
  "migrate_balance data = (case py_contains ''current_balance'' data of
       Inl e \<Rightarrow> Inl e
     | Inr has_current \<Rightarrow>
         (case py_contains ''bank_balance'' data of
            Inl e \<Rightarrow> Inl e
          | Inr has_bank \<Rightarrow>
              if has_current \<and> \<not> has_bank then
                (case py_getitem data ''current_balance'' of
                   Inl e \<Rightarrow> Inl e
                 | Inr b \<Rightarrow>
                     (case py_setitem data ''bank_balance'' b of
                        Inl e \<Rightarrow> Inl e
                      | Inr d1 \<Rightarrow> py_delitem d1 ''current_balance''))
              else if \<not> has_bank then py_setitem data ''bank_balance'' (PyInt 0)
              else Inr data))"

definition load_data :: "file_content \<Rightarrow> pyval" where
  \<comment> \<open>every exception but the \<open>ValueError\<close> of the normalization ends in the default dataset\<close>
  "load_data file = (case file of
       Json data \<Rightarrow>
         (case py_contains ''monthly_records'' data of
            Inl e \<Rightarrow> DEFAULT_DATA
          | Inr False \<Rightarrow> DEFAULT_DATA
          | Inr True \<Rightarrow>
              (case migrate_balance data of
                 Inl e \<Rightarrow> DEFAULT_DATA
               | Inr migrated \<Rightarrow>
                   (case validate_and_normalize_data migrated of
                      Inr normalized_data \<Rightarrow> normalized_data
                    | Inl e \<Rightarrow> if e = ValueError then migrated else DEFAULT_DATA)))
     | _ \<Rightarrow> DEFAULT_DATA)"

definition stringify_record :: "(pyval \<Rightarrow> string) \<Rightarrow> pyval \<Rightarrow> pyexc + pyval" where
  \<comment> \<open>the body of the second loop: \<open>salary\<close> and \<open>expenses\<close> of the copy become strings\<close>
  "stringify_record repr record = (case py_getitem record ''salary'' of
       Inl e \<Rightarrow> Inl e
     | Inr s \<Rightarrow>
         (case py_setitem record ''salary'' (PyStr (py_str repr s)) of
            Inl e \<Rightarrow> Inl e
          | Inr r1 \<Rightarrow>
              (case py_getitem r1 ''expenses'' of
                 Inl e \<Rightarrow> Inl e
               | Inr x \<Rightarrow> py_setitem r1 ''expenses'' (PyStr (py_str repr x)))))"

definition save_data :: "(pyval \<Rightarrow> string) \<Rightarrow> bool \<Rightarrow> pyval \<Rightarrow> file_content \<Rightarrow> bool \<times> file_content" where
  \<comment> \<open>The result and the file afterwards.  \<open>writable\<close> says whether the directory and the file
      can be opened for writing.  The source copies every record before it turns the
      fields of any into strings; both loops stop at the first exception, which is caught.\<close>
  "save_data repr writable data file = (
     if \<not> writable then (False, file)
     else case py_copy data of
       Inl e \<Rightarrow> (False, file)
     | Inr d0 \<Rightarrow>
         (case py_get data ''monthly_records'' (PyList []) of
            Inl e \<Rightarrow> (False, file)
          | Inr recs \<Rightarrow>
              (case py_iter recs of
                 Inl e \<Rightarrow> (False, file)
               | Inr items \<Rightarrow>
                   (case collect (map py_copy items) of
                      Inl e \<Rightarrow> (False, file)
                    | Inr copies \<Rightarrow>
                        (case py_setitem d0 ''monthly_records'' (PyList copies) of
                           Inl e \<Rightarrow> (False, file)
                         | Inr d1 \<Rightarrow>
                             (case collect (map (stringify_record repr) copies) of
                                Inl e \<Rightarrow> (False, file)
                              | Inr strs \<Rightarrow>
                                  (case py_setitem d1 ''monthly_records'' (PyList strs) of
                                     Inl e \<Rightarrow> (False, file)
                                   | Inr d2 \<Rightarrow> (True, Json d2))))))))"

fun update_first_match :: "string \<Rightarrow> string \<Rightarrow> int \<Rightarrow> pyval list \<Rightarrow> pyexc + pyval list option" where
  \<comment> \<open>the loop of \<open>add_monthly_record\<close>: the records after the field of the first record
      with this month is overwritten, \<open>None\<close> when no record has this month\<close>
  "update_first_match m field a [] = Inr None"
| "update_first_match m field a (record # records) =
     (case py_getitem record ''month'' of
        Inl e \<Rightarrow> Inl e
      | Inr v \<Rightarrow>
          if v = PyStr m then
            (case py_setitem record field (PyInt a) of
               Inl e \<Rightarrow> Inl e
             | Inr record' \<Rightarrow> Inr (Some (record' # records)))
          else
            (case update_first_match m field a records of
               Inl e \<Rightarrow> Inl e
             | Inr None \<Rightarrow> Inr None
             | Inr (Some records') \<Rightarrow> Inr (Some (record # records'))))"

definition store_records :: "pyval \<Rightarrow> pyval list \<Rightarrow> pyval" where
  \<comment> \<open>the dataset with the list under \<open>monthly_records\<close> replaced\<close>
  "store_records data records = (case data of
       PyDict kvs \<Rightarrow> PyDict (AList.update ''monthly_records'' (PyList records) kvs)
     | _ \<Rightarrow> data)"

definition add_monthly_record :: "pyval \<Rightarrow> string \<Rightarrow> pyval \<Rightarrow> bool \<Rightarrow> unit outcome" where
  "add_monthly_record data m amount_in is_salary = (
     case ensure_valid_financial_input amount_in of
       Inl e \<Rightarrow> Raised e data
     | Inr a \<Rightarrow>
         if \<not> ensure_valid_month_format m then Raised ValueError data
         else case py_getitem data ''monthly_records'' of
           Inl e \<Rightarrow> Raised e data
         | Inr recs \<Rightarrow>
             (case py_iter recs of
                Inl e \<Rightarrow> Raised e data
              | Inr items \<Rightarrow>
                  (case update_first_match m (if is_salary then ''salary'' else ''expenses'') a items of
                     Inl e \<Rightarrow> Raised e data
                   | Inr (Some items') \<Rightarrow> Returned (store_records data items') ()
                   | Inr None \<Rightarrow>
                       (case recs of
                          PyList xs \<Rightarrow>
                            (let new_record = PyDict
                                   [(''month'', PyStr m),
                                    (''salary'', PyInt (if is_salary then a else 0)),
                                    (''expenses'', PyInt (if \<not> is_salary then a else 0))];
                                 appended = xs @ [new_record]
                             in case sort_records_by_date appended of
                                  Inl e \<Rightarrow> Raised e (store_records data appended)
                                | Inr sorted_records \<Rightarrow> Returned (store_records data sorted_records) ())
                        | _ \<Rightarrow> Raised AttributeError data))))"



section \<open>Duplicate resolution (main.py)\<close>

datatype resolution = Combined int string | Overwritten int string | Cancelled string

definition show_existing :: "string \<Rightarrow> pyval \<Rightarrow> pyexc + unit" where
  \<comment> \<open>the line printed for a field that the existing record has\<close>
  "show_existing field record = (case py_contains field record of
       Inl e \<Rightarrow> Inl e
     | Inr False \<Rightarrow> Inr ()
     | Inr True \<Rightarrow>
         (case py_get record field (PyStr ''0'') of
            Inl e \<Rightarrow> Inl e
          | Inr v \<Rightarrow> (case py_int v of Inl e \<Rightarrow> Inl e | Inr n \<Rightarrow> format_money n)))"

definition handle_duplicate_month_entry ::
  "pyval \<Rightarrow> string \<Rightarrow> int \<Rightarrow> bool \<Rightarrow> string \<Rightarrow> resolution outcome" where
  \<comment> \<open>the last argument is the line that \<open>input()\<close> reads; the screen is not modelled, only
      the exceptions that building its text can raise\<close>
  "handle_duplicate_month_entry data m a is_income line = (
     case get_existing_data_for_month data m of
       Inl e \<Rightarrow> Raised e data
     | Inr existing_record \<Rightarrow>
         (case py_get existing_record (if is_income then ''salary'' else ''expenses'') (PyStr ''0'') of
            Inl e \<Rightarrow> Raised e data
          | Inr v \<Rightarrow>
              (case py_int v of
                 Inl e \<Rightarrow> Raised e data
               | Inr existing_value \<Rightarrow>
                   (case collect
                           [show_existing ''salary'' existing_record,
                            show_existing ''expenses'' existing_record,
                            format_money a,
                            format_money (existing_value + a),
                            format_money a] of
                      Inl e \<Rightarrow> Raised e data
                    | Inr _ \<Rightarrow>
                        (let choice = py_strip line in
                         if choice = ''1'' then
                           (let combined_amount = existing_value + a in
                            case add_monthly_record data m (PyInt combined_amount) is_income of
                              Raised e data' \<Rightarrow> Raised e data'
                            | Returned data' _ \<Rightarrow> Returned data' (Combined combined_amount m))
                         else if choice = ''2'' then
                           (case add_monthly_record data m (PyInt a) is_income of
                              Raised e data' \<Rightarrow> Raised e data'
                            | Returned data' _ \<Rightarrow> Returned data' (Overwritten a m))
                         else Returned data (Cancelled m))))))"

section \<open>Notions used in the statements\<close>



text \<open>
  A normalized dataset, as the normalization leaves one: every record is a dictionary with a
  month, an integer salary and an integer expenses field, and the bank balance is an integer.
\<close>

definition normalized_record :: "pyval \<Rightarrow> bool" where
  "normalized_record r = (case r of
       PyDict kvs \<Rightarrow>
         map_of kvs ''month'' \<noteq> None \<and>
         (case map_of kvs ''salary'' of Some (PyInt _) \<Rightarrow> True | _ \<Rightarrow> False) \<and>
         (case map_of kvs ''expenses'' of Some (PyInt _) \<Rightarrow> True | _ \<Rightarrow> False)
     | _ \<Rightarrow> False)"

definition normalized_dataset :: "pyval \<Rightarrow> bool" where
  "normalized_dataset d = (case d of
       PyDict kvs \<Rightarrow>
         (case map_of kvs ''monthly_records'' of
            Some (PyList records) \<Rightarrow> list_all normalized_record records
          | _ \<Rightarrow> False) \<and>
         (case map_of kvs ''bank_balance'' of Some (PyInt _) \<Rightarrow> True | _ \<Rightarrow> False)
     | _ \<Rightarrow> False)"

text \<open>
  A decimal text is a non-empty run of digits after an optional minus sign.  A record \<open>r\<close> in
  memory is written as the record \<open>t\<close> of the file when \<open>t\<close> has the month of \<open>r\<close> and holds
  the salary and the expenses of \<open>r\<close> as decimal texts.
\<close>

definition decimal_text :: "string \<Rightarrow> bool" where
  "decimal_text s = (case s of
       [] \<Rightarrow> False
     | c # cs \<Rightarrow> if c = CHR ''-'' then cs \<noteq> [] \<and> list_all is_digit cs else list_all is_digit s)"

definition written_as_text :: "pyval \<Rightarrow> pyval \<Rightarrow> bool" where
  "written_as_text r t = (case (py_getitem r ''salary'', py_getitem r ''expenses'',
         py_getitem t ''salary'', py_getitem t ''expenses'', py_getitem r ''month'', py_getitem t ''month'') of
       (Inr (PyInt s), Inr (PyInt e), Inr (PyStr s'), Inr (PyStr e'), Inr m, Inr m') \<Rightarrow>
         s' = str_of_int s \<and> e' = str_of_int e \<and> decimal_text s' \<and> decimal_text e' \<and> m' = m
     | _ \<Rightarrow> False)"

text \<open>A small dataset for the examples.\<close>

definition sample_data :: pyval where
  "sample_data = PyDict
     [(''monthly_records'', PyList
        [PyDict [(''month'', PyStr ''03/25''), (''salary'', PyInt 1000), (''expenses'', PyInt 200)]]),
      (''bank_balance'', PyInt 50)]"

section \<open>Properties of the parser\<close>

lemma length_py_strip: "length (py_strip s) \<le> length s"
  unfolding py_strip_def
  by (metis length_dropWhile_le length_rev order_trans)

lemma length_join_split_acc: "length (join_space (split_acc w s)) \<le> length w + length s"
proof (induction w s rule: split_acc.induct)
  case (1 w)
  then show ?case by simp
next
  case (2 w c cs)
  then show ?case
    by (cases "split_acc [] cs") (auto split: if_splits)
qed

lemma length_collapse_whitespace: "length (collapse_whitespace s) \<le> length s"
  using length_join_split_acc [of "[]" s] length_py_strip [of "join_space (py_split s)"]
  by (simp add: collapse_whitespace_def py_split_def)

lemma rmatch_ChrD:
  "st' \<in> set (rmatch (Chr p) st) \<Longrightarrow> rest st \<noteq> [] \<and> p (hd (rest st)) \<and> st' = advance 1 st"
  by (cases "rest st") (auto split: if_splits)

lemma rmatch_PlusD:
  "st' \<in> set (rmatch (Plus p) st) \<Longrightarrow>
     \<exists>k. 1 \<le> k \<and> k \<le> length (takeWhile p (rest st)) \<and> st' = advance k st"
  by (auto simp del: upt_Suc simp: less_Suc_eq_le)

lemma re_match_SomeD:
  "re_match r s = Some gs \<Longrightarrow> \<exists>st' \<in> set (rmatch r \<lparr>before = [], rest = s, groups = []\<rparr>). gs = groups st'"
  by (auto simp: re_match_def split: list.splits)

lemma rmatch_CatD:
  "st' \<in> set (rmatch (Cat a b) st) \<Longrightarrow> \<exists>st1 \<in> set (rmatch a st). st' \<in> set (rmatch b st1)"
  by auto

lemma rmatch_GroupD:
  "st' \<in> set (rmatch (Group i r) st) \<Longrightarrow>
     \<exists>a \<in> set (rmatch r st).
        st' = a\<lparr>groups := AList.update i (drop (length (before st)) (before a)) (groups a)\<rparr>"
  by auto

lemma rmatch_lit_ci:
  "a \<in> set (rmatch (lit_ci kw) st) \<Longrightarrow> length kw \<le> length (rest st) \<and> a = advance (length kw) st"
  unfolding lit_ci_def
proof (induction kw arbitrary: st)
  case Nil
  then show ?case by (simp add: advance_def)
next
  case (Cons c cs)
  from Cons.prems have "a \<in> set (rmatch (Cat (Chr (\<lambda>x. py_lower_char x = c))
      (seq (map (\<lambda>c. Chr (\<lambda>x. py_lower_char x = c)) cs))) st)"
    by simp
  from rmatch_CatD [OF this] obtain b where b: "b \<in> set (rmatch (Chr (\<lambda>x. py_lower_char x = c)) st)"
    and a: "a \<in> set (rmatch (seq (map (\<lambda>c. Chr (\<lambda>x. py_lower_char x = c)) cs)) b)"
    by blast
  from rmatch_ChrD [OF b] have b': "rest st \<noteq> []" "b = advance 1 st" by simp_all
  from Cons.IH [OF a] have "length cs \<le> length (rest b)" "a = advance (length cs) b" by simp_all
  with b' show ?case
    by (cases "rest st") (auto simp: advance_def)
qed

lemma rmatch_keyword_sep:
  assumes "st' \<in> set (rmatch (seq [lit_ci kw, Plus is_space, Group 1 (Plus any_char), Eol])
                       \<lparr>before = [], rest = t, groups = []\<rparr>)"
  shows "\<exists>k j. length kw < k \<and> 1 \<le> j \<and> k + j \<le> length t \<and>
           groups st' = [(1, take j (drop k t))] \<and>
           (drop (k + j) t = [] \<or> drop (k + j) t = [CHR 0x0A])"
proof -
  let ?st0 = "\<lparr>before = [], rest = t, groups = []\<rparr>"
  from assms have "st' \<in> set (rmatch (Cat (lit_ci kw) (Cat (Plus is_space)
      (Cat (Group 1 (Plus any_char)) (Cat Eol Eps)))) ?st0)"
    by (simp only: seq.simps)
  from rmatch_CatD [OF this] obtain st1 where
    1: "st1 \<in> set (rmatch (lit_ci kw) ?st0)" and
    r1: "st' \<in> set (rmatch (Cat (Plus is_space) (Cat (Group 1 (Plus any_char)) (Cat Eol Eps))) st1)"
    by blast
  from rmatch_CatD [OF r1] obtain st2 where
    2: "st2 \<in> set (rmatch (Plus is_space) st1)" and
    r2: "st' \<in> set (rmatch (Cat (Group 1 (Plus any_char)) (Cat Eol Eps)) st2)"
    by blast
  from rmatch_CatD [OF r2] obtain st3 where
    3: "st3 \<in> set (rmatch (Group 1 (Plus any_char)) st2)" and
    r3: "st' \<in> set (rmatch (Cat Eol Eps) st3)"
    by blast
  from r3 have 4: "st' \<in> set (rmatch Eol st3)"
    by simp
  from rmatch_lit_ci [OF 1] have s1: "length kw \<le> length t" "st1 = advance (length kw) ?st0" by simp_all
  from rmatch_PlusD [OF 2] obtain k where k: "1 \<le> k" "k \<le> length (rest st1)" "st2 = advance k st1"
    using order_trans [OF _ length_takeWhile_le] by blast
  from rmatch_GroupD [OF 3] obtain st3' where st3': "st3' \<in> set (rmatch (Plus any_char) st2)"
    and st3: "st3 = st3'\<lparr>groups := AList.update 1 (drop (length (before st2)) (before st3')) (groups st3')\<rparr>"
    by blast
  from rmatch_PlusD [OF st3'] obtain j where j: "1 \<le> j" "j \<le> length (rest st2)" "st3' = advance j st2"
    using order_trans [OF _ length_takeWhile_le] by blast
  from 4 have e: "st' = st3" "rest st3 = [] \<or> rest st3 = [CHR 0x0A]"
    by (auto split: if_splits)
  have "length kw < length kw + k" using k by simp
  moreover have "length kw + k + j \<le> length t" using s1 k j by (simp add: advance_def)
  moreover have "groups st' = [(1, take j (drop (length kw + k) t))]"
    using e s1 k j st3 by (simp add: advance_def add.commute)
  moreover have "drop (length kw + k + j) t = [] \<or> drop (length kw + k + j) t = [CHR 0x0A]"
    using e s1 k j st3 by (simp add: advance_def add.commute add.left_commute)
  ultimately show ?thesis using j(1) by blast
qed

lemma add_content_shorter:
  assumes "add_content t = Some c"
  shows "length c + 4 \<le> length t"
proof -
  from assms obtain gs where gs: "re_match add_re t = Some gs" and c: "c = re_group gs 1"
    by (auto simp: add_content_def)
  from re_match_SomeD [OF gs] obtain st' where
    st': "st' \<in> set (rmatch add_re \<lparr>before = [], rest = t, groups = []\<rparr>)" "gs = groups st'"
    by blast
  from st' have "st' \<in> set (rmatch (seq [lit_ci ''add'', Plus is_space, Group 1 (Plus any_char), Eol])
      \<lparr>before = [], rest = t, groups = []\<rparr>)"
    by (simp only: add_re_def)
  from rmatch_keyword_sep [OF this] obtain k j where
    "length ''add'' < k" "k + j \<le> length t" "groups st' = [(1, take j (drop k t))]"
    by blast
  with c st' show ?thesis by (simp add: re_group_def)
qed

termination parse_command
proof (relation "measure length")
  show "wf (measure length)" by simp
next
  fix user_input s content
  assume "s = collapse_whitespace user_input" and "add_content s = Some content"
  then show "(content, user_input) \<in> measure length"
    using add_content_shorter [of s content] length_collapse_whitespace [of user_input] by simp
qed







subsection \<open>The parser on the representative inputs\<close>

lemma parse_menu_option:
  "parse_command ''1'' = Inr (empty_result\<lparr>command := Some ''menu_option'', menu_option := Some 1\<rparr>)"
  by code_simp

lemma parse_empty_line:
  "parse_command '''' = Inr (empty_result\<lparr>command := Some ''menu''\<rparr>)"
  by code_simp

lemma parse_income:
  "parse_command ''+3000 3/25'' =
     Inr (empty_result\<lparr>command := Some ''income'', amount := Some 3000, month := Some ''03/25''\<rparr>)"
  by code_simp

lemma parse_expense:
  "parse_command ''-2500 2.25'' =
     Inr (empty_result\<lparr>command := Some ''expense'', amount := Some 2500, month := Some ''02/25''\<rparr>)"
  by code_simp

lemma parse_bank:
  "parse_command ''bank 12000'' = Inr (empty_result\<lparr>command := Some ''bank'', amount := Some 12000\<rparr>)"
  by code_simp

lemma parse_bare_bank:
  "parse_command ''bank'' = Inr (empty_result\<lparr>error := Some ''invalid_command''\<rparr>)"
  by code_simp

lemma parse_letters_amount:
  "parse_command ''+abc 3/25'' = Inr (empty_result\<lparr>error := Some ''invalid_command''\<rparr>)"
  by code_simp

lemma parse_month_13:
  "parse_command ''+3000 13/25'' = Inr (empty_result\<lparr>error := Some ''invalid_date''\<rparr>)"
  by code_simp

text \<open>
  Claim C1.  On the eight representative inputs of the specification the parser returns
  exactly the stated command: a menu option 1, the menu, an income of 3000 for 03/25, an
  expense of 2500 for 02/25, a bank balance of 12000, and the errors invalid\_command,
  invalid\_command and invalid\_date.  Every field that is not named is \<open>None\<close>.
\<close>

theorem parse_command_scenarios:
  "parse_command ''1'' = Inr (empty_result\<lparr>command := Some ''menu_option'', menu_option := Some 1\<rparr>) \<and>
   parse_command '''' = Inr (empty_result\<lparr>command := Some ''menu''\<rparr>) \<and>
   parse_command ''+3000 3/25'' =
     Inr (empty_result\<lparr>command := Some ''income'', amount := Some 3000, month := Some ''03/25''\<rparr>) \<and>
   parse_command ''-2500 2.25'' =
     Inr (empty_result\<lparr>command := Some ''expense'', amount := Some 2500, month := Some ''02/25''\<rparr>) \<and>
   parse_command ''bank 12000'' = Inr (empty_result\<lparr>command := Some ''bank'', amount := Some 12000\<rparr>) \<and>
   parse_command ''bank'' = Inr (empty_result\<lparr>error := Some ''invalid_command''\<rparr>) \<and>
   parse_command ''+abc 3/25'' = Inr (empty_result\<lparr>error := Some ''invalid_command''\<rparr>) \<and>
   parse_command ''+3000 13/25'' = Inr (empty_result\<lparr>error := Some ''invalid_date''\<rparr>)"
  by (intro conjI parse_menu_option parse_empty_line parse_income parse_expense parse_bank
      parse_bare_bank parse_letters_amount parse_month_13)

text \<open>
  Claim C3.  The parser is meant never to raise, and it turns every \<open>ValueError\<close> of the
  amount validation into an error code.  The validation lets an \<open>OverflowError\<close> through,
  though: \<open>float\<close> accepts \<open>inf\<close>, \<open>int\<close> of an infinite float raises \<open>OverflowError\<close>, and
  neither handler catches it.  On the input \<open>bank inf\<close> the parser raises.
\<close>

theorem parse_command_bank_inf_raises: "parse_command ''bank inf'' = Inl OverflowError"
  by code_simp

section \<open>Properties of the amount validation\<close>

subsection \<open>Rounding to a double\<close>










subsection \<open>Strings of digits\<close>

lemma is_digit_facts:
  assumes "is_digit c"
  shows "\<not> is_space c" "c \<noteq> CHR ''_''" "c \<noteq> CHR ''-''" "c \<noteq> CHR ''+''"
    "py_lower_char c = c" "0 \<le> digit_val c" "digit_val c \<le> 9"
  using assms by (auto simp: is_digit_def is_space_def py_lower_char_def digit_val_def)

lemma dropWhile_none: "(\<And>x. x \<in> set xs \<Longrightarrow> \<not> P x) \<Longrightarrow> dropWhile P xs = xs"
  by (cases xs) auto

lemma py_strip_no_space:
  assumes "\<And>x. x \<in> set s \<Longrightarrow> \<not> is_space x"
  shows "py_strip s = s"
proof -
  have "dropWhile is_space s = s" using assms by (rule dropWhile_none)
  moreover have "dropWhile is_space (rev s) = rev s" using assms by (intro dropWhile_none) simp
  ultimately show ?thesis by (simp add: py_strip_def)
qed

lemma strip_underscores_digits:
  "list_all is_digit ds \<Longrightarrow> p \<noteq> CHR ''_'' \<Longrightarrow> strip_underscores p ds = Some ds"
  by (induction ds arbitrary: p) (auto simp: is_digit_facts)



lemma digits_value_snoc: "digits_value (ds @ [c]) = 10 * digits_value ds + digit_val c"
  by (simp add: digits_value_def)


















section \<open>Properties of the record store\<close>



text \<open>
  Claim C8.  The documentation of \<open>has_salary_data\<close> promises \<open>True\<close> when at least one
  record has income, and the claim asks for a field that cannot be coerced to count as 0.
  The code wraps the whole scan in one \<open>try\<close>: a field that cannot be coerced ends the scan
  with \<open>False\<close>, whatever the records after it hold.  The same two records give \<open>False\<close> in
  one order and \<open>True\<close> in the other.
\<close>

theorem has_data_depends_on_order:
  "has_salary_data (PyDict [(''monthly_records'', PyList
       [PyDict [(''month'', PyStr ''01/25''), (''salary'', PyStr ''abc''), (''expenses'', PyInt 0)],
        PyDict [(''month'', PyStr ''02/25''), (''salary'', PyInt 1000), (''expenses'', PyInt 0)]]),
     (''bank_balance'', PyInt 0)]) = Inr False \<and>
   has_salary_data (PyDict [(''monthly_records'', PyList
       [PyDict [(''month'', PyStr ''02/25''), (''salary'', PyInt 1000), (''expenses'', PyInt 0)],
        PyDict [(''month'', PyStr ''01/25''), (''salary'', PyStr ''abc''), (''expenses'', PyInt 0)]]),
     (''bank_balance'', PyInt 0)]) = Inr True \<and>
   has_expense_data (PyDict [(''monthly_records'', PyList
       [PyDict [(''month'', PyStr ''01/25''), (''salary'', PyInt 0), (''expenses'', PyNone)],
        PyDict [(''month'', PyStr ''02/25''), (''salary'', PyInt 0), (''expenses'', PyInt 800)]]),
     (''bank_balance'', PyInt 0)]) = Inr False"
  by code_simp

text \<open>
  Claim C10.  A balance that cannot be coerced should leave the raw data in place.  For a
  balance that is an infinite float (the JSON number \<open>1e999\<close>), \<open>int\<close> raises
  \<open>OverflowError\<close>, which only the outermost handler catches: the default dataset is
  substituted and the records of the file are gone.
\<close>

theorem load_data_infinite_balance:
  "load_data (Json (PyDict
     [(''monthly_records'', PyList
        [PyDict [(''month'', PyStr ''03/25''), (''salary'', PyStr ''1000''), (''expenses'', PyStr ''200'')]]),
      (''bank_balance'', PyFloat PosInf)])) = DEFAULT_DATA"
  by code_simp

lemma has_data_reachable:
  "has_salary_data (load_data (Json (PyDict [(''monthly_records'', PyList
       [PyDict [(''month'', PyStr ''01/25''), (''salary'', PyStr ''abc''), (''expenses'', PyStr ''0'')],
        PyDict [(''month'', PyStr ''02/25''), (''salary'', PyStr ''1000''), (''expenses'', PyStr ''0'')]]),
     (''bank_balance'', PyStr ''x'')]))) = Inr False"
  by code_simp

lemma load_data_keeps_raw:
  assumes "map_of kvs ''monthly_records'' = Some recs" "map_of kvs ''bank_balance'' = Some b"
    "py_int b = Inl e" "e = ValueError \<or> e = TypeError"
  shows "load_data (Json (PyDict kvs)) = PyDict kvs"
  using assms
  by (auto simp: load_data_def py_contains_def migrate_balance_def validate_and_normalize_data_def
      py_copy_def normalize_field_def py_getitem_def)

lemma has_field_data_empty:
  "has_salary_data DEFAULT_DATA = Inr False" "has_expense_data DEFAULT_DATA = Inr False"
  by code_simp+

subsection \<open>Chronological order\<close>













subsection \<open>Saving and loading\<close>

lemma digit_char_table:
  "\<forall>d \<in> set [0, 1, 2, 3, 4, 5, 6, 7, 8, 9]. is_digit (digit_char d) \<and> digit_val (digit_char d) = d"
  by code_simp

lemma digit_char_is_digit:
  assumes "0 \<le> d" "d \<le> 9"
  shows "is_digit (digit_char d) \<and> digit_val (digit_char d) = d"
proof -
  from assms have "d = 0 \<or> d = 1 \<or> d = 2 \<or> d = 3 \<or> d = 4 \<or> d = 5 \<or> d = 6 \<or> d = 7 \<or> d = 8 \<or> d = 9"
    by arith
  with digit_char_table show ?thesis by auto
qed

lemma digits_of_props:
  "0 \<le> n \<Longrightarrow> digits_of n \<noteq> [] \<and> list_all is_digit (digits_of n) \<and> digits_value (digits_of n) = n"
proof (induction n rule: digits_of.induct)
  case (1 n)
  show ?case
  proof (cases "n < 10")
    case True
    then have eq: "digits_of n = [digit_char n]"
      by (subst digits_of.simps) simp
    from True "1.prems" digit_char_is_digit [of n] show ?thesis
      by (simp add: eq digits_value_def)
  next
    case False
    then have ih: "digits_of (n div 10) \<noteq> [] \<and> list_all is_digit (digits_of (n div 10)) \<and>
        digits_value (digits_of (n div 10)) = n div 10"
      using "1.IH" "1.prems" by simp
    have d: "is_digit (digit_char (n mod 10)) \<and> digit_val (digit_char (n mod 10)) = n mod 10"
      by (intro digit_char_is_digit) simp_all
    have eq: "digits_of n = digits_of (n div 10) @ [digit_char (n mod 10)]"
      using False by (subst digits_of.simps) simp
    show ?thesis
      using ih d by (simp add: eq digits_value_snoc)
  qed
qed

lemma py_int_of_string_digits:
  assumes "ds \<noteq> []" "list_all is_digit ds"
  shows "py_int_of_string ds = Inr (digits_value ds)"
proof -
  have strip: "py_strip ds = ds"
    using assms(2) by (intro py_strip_no_space) (auto simp: list_all_iff is_digit_facts)
  have sign: "split_sign ds = (False, ds)"
    using assms by (cases ds) (auto simp: split_sign_def is_digit_facts)
  show ?thesis
    using assms by (simp add: py_int_of_string_def strip sign strip_underscores_digits)
qed

lemma py_int_of_string_minus_digits:
  assumes "ds \<noteq> []" "list_all is_digit ds"
  shows "py_int_of_string (CHR ''-'' # ds) = Inr (- digits_value ds)"
proof -
  have "\<not> is_space CHR ''-''" by (simp add: is_space_def)
  then have strip: "py_strip (CHR ''-'' # ds) = CHR ''-'' # ds"
    using assms(2) by (intro py_strip_no_space) (auto simp: list_all_iff is_digit_facts)
  show ?thesis
    using assms by (simp add: py_int_of_string_def strip split_sign_def strip_underscores_digits)
qed

lemma py_int_of_string_str_of_int: "py_int_of_string (str_of_int n) = Inr n"
proof (cases "n < 0")
  case True
  then have "0 \<le> - n" by simp
  from digits_of_props [OF this] True show ?thesis
    by (simp add: str_of_int_def py_int_of_string_minus_digits)
next
  case False
  then have "0 \<le> n" by simp
  from digits_of_props [OF this] False show ?thesis
    by (simp add: str_of_int_def py_int_of_string_digits)
qed

lemma update_commute:
  "map_of al k \<noteq> None \<Longrightarrow> map_of al k' \<noteq> None \<Longrightarrow> k \<noteq> k' \<Longrightarrow>
     AList.update k v (AList.update k' v' al) = AList.update k' v' (AList.update k v al)"
  by (induction al) auto

lemma update_restore:
  assumes "map_of al k = Some v" "map_of al k' = Some v'" "k \<noteq> k'"
  shows "AList.update k' v' (AList.update k v (AList.update k' y (AList.update k x al))) = al"
proof -
  have 1: "map_of (AList.update k x al) k' \<noteq> None" "map_of (AList.update k x al) k \<noteq> None"
    using assms by (simp_all add: update_conv')
  have "AList.update k v (AList.update k' y (AList.update k x al)) =
      AList.update k' y (AList.update k v (AList.update k x al))"
    using 1 assms(3) by (intro update_commute) auto
  also have "\<dots> = AList.update k' y al"
    using assms(1) by (simp add: update_triv)
  finally show ?thesis
    using assms(2) by (simp add: update_triv)
qed

lemma stringify_normalized:
  assumes "map_of kvs ''salary'' = Some (PyInt s)" "map_of kvs ''expenses'' = Some (PyInt e)"
  shows "stringify_record repr (PyDict kvs) =
     Inr (PyDict (AList.update ''expenses'' (PyStr (str_of_int e))
            (AList.update ''salary'' (PyStr (str_of_int s)) kvs)))"
  using assms
  by (simp add: stringify_record_def py_getitem_def py_setitem_def py_str_def update_conv')

lemma normalize_stringified:
  assumes "map_of kvs ''month'' \<noteq> None"
    "map_of kvs ''salary'' = Some (PyInt s)" "map_of kvs ''expenses'' = Some (PyInt e)"
  shows "validate_and_normalize_record
     (PyDict (AList.update ''expenses'' (PyStr (str_of_int e))
        (AList.update ''salary'' (PyStr (str_of_int s)) kvs))) = Inr (PyDict kvs)"
  using assms
  by (simp add: validate_and_normalize_record_def py_copy_def py_contains_def
      normalize_record_field_def normalize_field_def py_getitem_def py_int_def py_setitem_def
      update_conv' py_int_of_string_str_of_int update_restore)

lemma collect_copy_normalized:
  "list_all normalized_record rs \<Longrightarrow> collect (map py_copy rs) = Inr rs"
  by (induction rs) (auto simp: normalized_record_def py_copy_def split: pyval.splits)

lemma decimal_text_str_of_int: "decimal_text (str_of_int n)"
proof (cases "n < 0")
  case True
  then have "0 \<le> - n" by simp
  from digits_of_props [OF this] True show ?thesis
    by (simp add: str_of_int_def decimal_text_def)
next
  case False
  then have "0 \<le> n" by simp
  from digits_of_props [OF this] have p: "digits_of n \<noteq> []" "list_all is_digit (digits_of n)"
    by simp_all
  then obtain c cs where cs: "digits_of n = c # cs" by (cases "digits_of n") auto
  with p have "is_digit c" by simp
  then have "c \<noteq> CHR ''-''" by (auto simp: is_digit_def)
  with p cs False show ?thesis
    by (simp add: str_of_int_def decimal_text_def)
qed

lemma stringify_normalize_records:
  assumes "list_all normalized_record rs"
  shows "\<exists>strs. collect (map (stringify_record repr) rs) = Inr strs \<and> normalize_records strs = Inr rs \<and>
     list_all2 written_as_text rs strs"
  using assms
proof (induction rs)
  case Nil
  then show ?case by simp
next
  case (Cons r rs)
  from Cons.prems obtain kvs s e m where r: "r = PyDict kvs" "map_of kvs ''month'' = Some m"
    "map_of kvs ''salary'' = Some (PyInt s)" "map_of kvs ''expenses'' = Some (PyInt e)"
    by (auto simp: normalized_record_def split: pyval.split_asm option.split_asm)
  from Cons obtain strs where strs: "collect (map (stringify_record repr) rs) = Inr strs"
    "normalize_records strs = Inr rs" "list_all2 written_as_text rs strs"
    by auto
  let ?t = "PyDict (AList.update ''expenses'' (PyStr (str_of_int e))
        (AList.update ''salary'' (PyStr (str_of_int s)) kvs))"
  have "collect (map (stringify_record repr) (r # rs)) = Inr (?t # strs)"
    using strs(1) r by (simp add: stringify_normalized)
  moreover have "normalize_records (?t # strs) = Inr (r # rs)"
    using strs(2) r by (simp add: normalize_stringified)
  moreover have "written_as_text r ?t"
    using r by (simp add: written_as_text_def py_getitem_def update_conv' decimal_text_str_of_int)
  ultimately show ?case using strs(3) by simp
qed

text \<open>
  Claim C7.  Saving a normalized dataset succeeds, and loading the file that was written gives
  the dataset back: the same records with the same months, salaries and expenses, in the same
  order, and the same bank balance.  In the file every record keeps its month and holds its
  salary and its expenses as decimal texts, the texts of the integers in memory; the bank
  balance is written as it is.  The conversions between integers and texts are those of
  unbounded integers (the interpreter's configurable limit on the number of digits of such a
  conversion, 4300 by default, is not part of the model).
\<close>

theorem save_load_round_trip:
  assumes "normalized_dataset d"
  shows "\<exists>disk strs rs. save_data repr True d f = (True, Json disk) \<and> load_data (Json disk) = d \<and>
     py_getitem d ''monthly_records'' = Inr (PyList rs) \<and>
     py_getitem disk ''monthly_records'' = Inr (PyList strs) \<and>
     py_getitem disk ''bank_balance'' = py_getitem d ''bank_balance'' \<and>
     list_all2 written_as_text rs strs"
proof -
  from assms obtain kvs rs b where d: "d = PyDict kvs"
    "map_of kvs ''monthly_records'' = Some (PyList rs)" "list_all normalized_record rs"
    "map_of kvs ''bank_balance'' = Some (PyInt b)"
    unfolding normalized_dataset_def
    by (auto split: pyval.split_asm option.split_asm)
  from stringify_normalize_records [OF d(3), of repr] obtain strs where
    strs: "collect (map (stringify_record repr) rs) = Inr strs" "normalize_records strs = Inr rs"
      "list_all2 written_as_text rs strs"
    by blast
  let ?disk = "PyDict (AList.update ''monthly_records'' (PyList strs) kvs)"
  have same: "AList.update ''monthly_records'' (PyList rs) kvs = kvs"
    using d(2) by (simp add: update_triv)
  have save: "save_data repr True d f = (True, Json ?disk)"
    using d strs(1)
    by (simp add: save_data_def py_copy_def py_get_def py_iter_def collect_copy_normalized
        py_setitem_def same)
  have bal: "map_of (AList.update ''monthly_records'' (PyList strs) kvs) ''bank_balance'' = Some (PyInt b)"
    using d(4) by (simp add: update_conv')
  have bal_same: "AList.update ''bank_balance'' (PyInt b)
      (AList.update ''monthly_records'' (PyList strs) kvs) = AList.update ''monthly_records'' (PyList strs) kvs"
    using bal by (simp add: update_triv)
  have mig: "migrate_balance ?disk = Inr ?disk"
    using bal by (simp add: migrate_balance_def py_contains_def)
  have norm: "validate_and_normalize_data ?disk = Inr d"
    using d(1) bal strs(2)
    by (simp add: validate_and_normalize_data_def py_copy_def py_contains_def update_conv'
        normalize_field_def py_getitem_def py_int_def py_setitem_def bal_same py_iter_def same)
  have load: "load_data (Json ?disk) = d"
    by (simp add: load_data_def py_contains_def update_conv' mig norm)
  have "py_getitem d ''monthly_records'' = Inr (PyList rs)"
    using d by (simp add: py_getitem_def)
  moreover have "py_getitem ?disk ''monthly_records'' = Inr (PyList strs)"
    by (simp add: py_getitem_def update_conv')
  moreover have "py_getitem ?disk ''bank_balance'' = py_getitem d ''bank_balance''"
    using d by (simp add: py_getitem_def update_conv')
  ultimately show ?thesis using save load strs(3) by blast
qed

lemma sample_data_normalized: "normalized_dataset sample_data"
  by (simp add: normalized_dataset_def sample_data_def normalized_record_def)

theorem save_load_round_trip_witness:
  "normalized_dataset sample_data \<and>
   (\<exists>disk strs rs. save_data (\<lambda>v. []) True sample_data NoFile = (True, Json disk) \<and>
     load_data (Json disk) = sample_data \<and>
     py_getitem sample_data ''monthly_records'' = Inr (PyList rs) \<and>
     py_getitem disk ''monthly_records'' = Inr (PyList strs) \<and>
     py_getitem disk ''bank_balance'' = py_getitem sample_data ''bank_balance'' \<and>
     list_all2 written_as_text rs strs)"
  using save_load_round_trip [of sample_data "\<lambda>v. []" NoFile] sample_data_normalized by blast

text \<open>The file that saving the sample dataset writes, and the dataset that loading it gives.\<close>

lemma save_data_sample:
  "save_data repr True sample_data NoFile = (True, Json (PyDict
     [(''monthly_records'', PyList
        [PyDict [(''month'', PyStr ''03/25''), (''salary'', PyStr ''1000''), (''expenses'', PyStr ''200'')]]),
      (''bank_balance'', PyInt 50)]))"
  by code_simp

lemma load_data_sample:
  "load_data (Json (PyDict
     [(''monthly_records'', PyList
        [PyDict [(''month'', PyStr ''03/25''), (''salary'', PyStr ''1000''), (''expenses'', PyStr ''200'')]]),
      (''bank_balance'', PyInt 50)])) = sample_data"
  by code_simp

end
